theory Spec2Isabelle
  imports Main "HOL-Library.AList"
begin

section \<open>The request/response pipeline of the Cloudcraft client\<close>

text \<open>
  A shallow embedding of the client (package \<open>cloudcraft\<close>): the query merge
  \<open>addOptions\<close>, the client constructors, \<open>NewRequest\<close>, \<open>Do\<close>,
  \<open>CheckResponse\<close>, \<open>ErrorResponse.Error\<close> and the argument checks of the
  resource services.

  Go's standard library and \<open>go-querystring\<close> are not part of the repository. Their
  functions are parameters of the model (the records \<open>url_lib\<close> and \<open>json_lib\<close>
  and the transport), so every theorem holds for whatever these libraries do. A Go
  \<open>(value, error)\<close> pair is a pair with an \<open>option\<close> error, a nil pointer is
  \<open>None\<close>, and a run-time panic is the value \<open>Panic\<close>.
\<close>

subsection \<open>Data\<close>

text \<open>An error value of a library (transport, JSON, URL, I/O), identified by its text.\<close>

type_synonym lib_error = string

datatype 'a outcome = Panic string | Return 'a

text \<open>
  \<open>http.Header\<close>: canonical key to the list of its values; a key that is absent has
  no values.
\<close>

type_synonym http_Header = "string \<Rightarrow> string list"

text \<open>
  \<open>http.Request\<close>. \<open>URL\<close> is the string form of the request's URL. \<open>ReqBody\<close> is
  \<open>None\<close> for a request built with a nil body and the bytes of the buffer otherwise.
\<close>

record http_Request =
  Method :: string
  URL :: string
  Header :: http_Header
  ReqBody :: "string option"

text \<open>
  A response body (\<open>io.ReadCloser\<close>): the bytes not yet read, the error the reader
  reports once they are exhausted (\<open>None\<close>: a clean end of file), the error \<open>Close\<close>
  returns, and whether it was closed.
\<close>

record ReadCloser =
  data :: string
  rerr :: "lib_error option"
  cerr :: "lib_error option"
  closed :: bool

record http_Response =
  StatusCode :: int
  ContentLength :: int
  Body :: ReadCloser
  Request :: http_Request

text \<open>\<open>type Response struct { *http.Response }\<close>\<close>

datatype Response = Wrap (unwrap: http_Response)

record ErrorResponse =
  Response :: http_Response
  Message :: string
  Code :: int

text \<open>
  The error values that travel through the client: a library's error, an
  \<open>*ErrorResponse\<close>, and the argument error of the resource services.
\<close>

datatype error = LibError lib_error | ApiError ErrorResponse | ArgError string string

text \<open>
  \<open>Client\<close>. The \<open>*http.Client\<close> is the transport that \<open>Do\<close> takes as an
  argument; the services only point back to the client. \<open>BaseURL\<close> is the string
  form of the base URL, \<open>onRequestCompleted\<close> says whether a callback is registered,
  and \<open>headers\<close> is the map of static headers in the order the \<open>range\<close> loop
  visits it.
\<close>

record Client =
  BaseURL :: string
  UserAgent :: string
  onRequestCompleted :: bool
  headers :: "(string \<times> string) list"

text \<open>
  \<open>encoding/json\<close>. \<open>json_Unmarshal data e\<close> is \<open>json.Unmarshal(data, e)\<close> on an
  \<open>*ErrorResponse\<close>: the target as the decoder leaves it, and its error.
  \<open>json_Decode b v\<close> is \<open>json.NewDecoder(b).Decode(v)\<close>: the stream and the target
  after the call, and the error. \<open>json_Encode\<close> is \<open>json.NewEncoder(buf).Encode\<close>:
  the bytes written to the buffer, or the error.
\<close>

record ('v, 'b) json_lib =
  json_Unmarshal :: "string \<Rightarrow> ErrorResponse \<Rightarrow> ErrorResponse \<times> lib_error option"
  json_Decode :: "ReadCloser \<Rightarrow> 'v \<Rightarrow> ReadCloser \<times> 'v \<times> lib_error option"
  json_Encode :: "'b \<Rightarrow> lib_error + string"

text \<open>
  The transport: what \<open>client.Do(req)\<close> returns at the \<open>n\<close>-th exchange of a call
  (counted from 0), as Go's pair of a response pointer and an error.
\<close>

type_synonym transport = "nat \<Rightarrow> http_Request \<Rightarrow> http_Response option \<times> lib_error option"

text \<open>An \<open>io.Writer\<close>: the bytes it has accepted, and the error its \<open>Write\<close> returns.\<close>

record Writer =
  written :: string
  werr :: "lib_error option"

text \<open>The argument \<open>v\<close> of \<open>Do\<close>: nil, a value that is an \<open>io.Writer\<close>, or any other value.\<close>

datatype 'v Dest = NilDest | WriterDest Writer | ValueDest 'v

text \<open>
  What a call of \<open>Do\<close> leaves behind. \<open>ret_response\<close> and \<open>ret_err\<close> are the two
  results the caller receives. \<open>err_var\<close> is the local variable \<open>err\<close> once the
  deferred function has run. \<open>sent\<close> lists the requests handed to the transport,
  \<open>completed\<close> the calls of the completion callback. The wrapper and an
  \<open>ErrorResponse\<close> point to the \<open>http.Response\<close> of the transport; the state of
  its body at the end of the call is \<open>body_after\<close>.
\<close>

record 'v DoResult =
  ret_response :: "Response option"
  ret_err :: "error option"
  err_var :: "error option"
  sent :: "http_Request list"
  completed :: "(http_Request \<times> http_Response) list"
  dest :: "'v Dest"
  body_after :: ReadCloser
  drained :: bool
  decoded :: bool

subsection \<open>Reading, copying and closing a body\<close>

definition ioutil_ReadAll :: "ReadCloser \<Rightarrow> ReadCloser \<times> string \<times> lib_error option" where
  "ioutil_ReadAll b = (b\<lparr>data := []\<rparr>, data b, rerr b)"

text \<open>
  \<open>io.CopyN(ioutil.Discard, b, n)\<close>: reads and drops up to \<open>n\<close> bytes; fewer than
  \<open>n\<close> bytes is an error (the reader's, or \<open>EOF\<close>).
\<close>

definition io_CopyN_Discard :: "ReadCloser \<Rightarrow> nat \<Rightarrow> ReadCloser \<times> nat \<times> lib_error option" where
  "io_CopyN_Discard b n =
     (let k = min n (length (data b))
      in (b\<lparr>data := drop n (data b)\<rparr>, k,
          if k < n then Some (case rerr b of None \<Rightarrow> ''EOF'' | Some e \<Rightarrow> e) else None))"

text \<open>
  \<open>io.Copy(w, b)\<close>: every byte of the body goes to the writer until the body ends or
  an error occurs; the end of the body is not an error.
\<close>

definition io_Copy :: "Writer \<Rightarrow> ReadCloser \<Rightarrow> Writer \<times> ReadCloser \<times> lib_error option" where
  "io_Copy w b =
     (if data b = [] then (w, b, rerr b)
      else (case werr w of
              Some e \<Rightarrow> (w, b\<lparr>data := []\<rparr>, Some e)
            | None \<Rightarrow> (w\<lparr>written := written w @ data b\<rparr>, b\<lparr>data := []\<rparr>, rerr b)))"

definition Close :: "ReadCloser \<Rightarrow> ReadCloser \<times> lib_error option" where
  "Close b = (b\<lparr>closed := True\<rparr>, cerr b)"

subsection \<open>CheckResponse and ErrorResponse.Error\<close>

text \<open>
  \<open>CheckResponse\<close> returns the error and the body as it leaves it. The decoder works
  on the \<open>ErrorResponse\<close> in place, so what it stored before it failed stays.
\<close>

definition CheckResponse ::
  "(string \<Rightarrow> ErrorResponse \<Rightarrow> ErrorResponse \<times> lib_error option) \<Rightarrow> http_Response
     \<Rightarrow> ErrorResponse option \<times> ReadCloser" where
  "CheckResponse unmarshal r =
     (if 200 \<le> StatusCode r \<and> StatusCode r \<le> 299 then (None, Body r)
      else
        (let errorResponse = \<lparr>Response = r, Message = [], Code = 0\<rparr>;
             (b, dat, err) = ioutil_ReadAll (Body r)
         in (Some (if err = None \<and> length dat > 0
                   then (case unmarshal dat errorResponse of
                           (e, None) \<Rightarrow> e
                         | (e, Some _) \<Rightarrow> e\<lparr>Message := dat\<rparr>)
                   else errorResponse), b)))"





subsection \<open>Do\<close>

definition maxBodySlurpSize :: nat where
  "maxBodySlurpSize = 2 * 2 ^ 10"

definition newResponse :: "http_Response \<Rightarrow> Response" where
  "newResponse r = Wrap r"

text \<open>
  The two statements that open \<open>Do\<close>: an exchange, repeated while the status is
  202. \<open>Do_retry t req n\<close> runs from the \<open>n\<close>-th exchange on. Reading the status of
  a nil response is a nil pointer dereference. The loop has no bound, so the function
  is partial: \<open>None\<close> is a call that never returns. The result is the number of
  exchanges made, the last response and the last error.
\<close>

partial_function (option) Do_retry ::
  "transport \<Rightarrow> http_Request \<Rightarrow> nat \<Rightarrow> (nat \<times> http_Response \<times> lib_error option) outcome option" where
  "Do_retry t req n =
     (case t n req of
        (None, err) \<Rightarrow> Some (Panic ''invalid memory address or nil pointer dereference'')
      | (Some resp, err) \<Rightarrow>
          if StatusCode resp = 202 then Do_retry t req (Suc n)
          else Some (Return (Suc n, resp, err)))"

text \<open>
  The deferred function: the drain, whose result is dropped, and the close, whose
  error goes to the local variable \<open>err\<close> when that is nil. It gives the body, whether
  the drain ran, and the variable.
\<close>

definition Do_deferred :: "http_Response \<Rightarrow> ReadCloser \<Rightarrow> error option \<Rightarrow> ReadCloser \<times> bool \<times> error option" where
  "Do_deferred resp b err =
     (let (b1, dr) =
            (if ContentLength resp = - 1 \<or> ContentLength resp \<le> int maxBodySlurpSize
             then (fst (io_CopyN_Discard b maxBodySlurpSize), True) else (b, False));
          (b2, rerr) = Close b1
      in (b2, dr, if err = None then map_option LibError rerr else err))"

text \<open>
  A \<open>return r, e\<close> after the \<open>defer\<close> statement. \<open>Do\<close> declares no result names,
  so the results are fixed by the \<open>return\<close> statement before the deferred function
  runs, and the deferred assignment reaches only the local variable.
\<close>

definition Do_return ::
  "http_Request list \<Rightarrow> (http_Request \<times> http_Response) list \<Rightarrow> http_Response \<Rightarrow> ReadCloser
     \<Rightarrow> 'v Dest \<Rightarrow> bool \<Rightarrow> Response option \<Rightarrow> error option \<Rightarrow> 'v DoResult" where
  "Do_return reqs cbs resp b v dec r e =
     (let (b', dr, ev) = Do_deferred resp b e
      in \<lparr>ret_response = r, ret_err = e, err_var = ev, sent = reqs, completed = cbs,
          dest = v, body_after = b', drained = dr, decoded = dec\<rparr>)"

text \<open>\<open>Do\<close> from the test \<open>err != nil\<close> on, after \<open>n\<close> exchanges.\<close>

definition Do_process ::
  "Client \<Rightarrow> ('v, 'b) json_lib \<Rightarrow> http_Request \<Rightarrow> 'v Dest \<Rightarrow> nat \<Rightarrow> http_Response
     \<Rightarrow> lib_error option \<Rightarrow> 'v DoResult" where
  "Do_process c lib req v n resp terr =
     (case terr of
        Some e \<Rightarrow>
          \<lparr>ret_response = None, ret_err = Some (LibError e), err_var = Some (LibError e),
           sent = replicate n req, completed = [], dest = v, body_after = Body resp,
           drained = False, decoded = False\<rparr>
      | None \<Rightarrow>
          (let cbs = (if onRequestCompleted c then [(req, resp)] else []);
               response = newResponse resp;
               (cerr, b1) = CheckResponse (json_Unmarshal lib) resp
           in (case cerr of
                 Some e \<Rightarrow>
                   Do_return (replicate n req) cbs resp b1 v False (Some response) (Some (ApiError e))
               | None \<Rightarrow>
                   (case v of
                      NilDest \<Rightarrow>
                        Do_return (replicate n req) cbs resp b1 NilDest False (Some response) None
                    | WriterDest w \<Rightarrow>
                        (let (w', b2, e) = io_Copy w b1
                         in (case e of
                               Some x \<Rightarrow>
                                 Do_return (replicate n req) cbs resp b2 (WriterDest w') False
                                   None (Some (LibError x))
                             | None \<Rightarrow>
                                 Do_return (replicate n req) cbs resp b2 (WriterDest w') False
                                   (Some response) None))
                    | ValueDest x \<Rightarrow>
                        (let (b2, x', e) = json_Decode lib b1 x
                         in (case e of
                               Some y \<Rightarrow>
                                 Do_return (replicate n req) cbs resp b2 (ValueDest x') True
                                   None (Some (LibError y))
                             | None \<Rightarrow>
                                 Do_return (replicate n req) cbs resp b2 (ValueDest x') True
                                   (Some response) None))))))"

definition Do ::
  "Client \<Rightarrow> transport \<Rightarrow> ('v, 'b) json_lib \<Rightarrow> http_Request \<Rightarrow> 'v Dest \<Rightarrow> 'v DoResult outcome option" where
  "Do c t lib req v =
     (case Do_retry t req 0 of
        None \<Rightarrow> None
      | Some (Panic m) \<Rightarrow> Some (Panic m)
      | Some (Return (n, resp, err)) \<Rightarrow> Some (Return (Do_process c lib req v n resp err)))"

subsection \<open>Headers\<close>

text \<open>
  The token bytes of HTTP (\<open>httpguts\<close>): letters, digits and
  \<open>! # $ % & ' * + - . ^ _ ` | ~\<close>, by their codes.
\<close>

definition isTokenByte :: "char \<Rightarrow> bool" where
  "isTokenByte c =
     (let n = (of_char c :: nat)
      in n \<in> set [33, 35, 36, 37, 38, 39, 42, 43, 45, 46, 94, 95, 96, 124, 126]
         \<or> (48 \<le> n \<and> n \<le> 57) \<or> (65 \<le> n \<and> n \<le> 90) \<or> (97 \<le> n \<and> n \<le> 122))"

text \<open>
  \<open>textproto.CanonicalMIMEHeaderKey\<close>: a key with a byte that is no token byte
  stays as it is; otherwise the first letter and each letter after a dash become
  upper case and the other letters lower case.
\<close>

fun canonical_case :: "bool \<Rightarrow> string \<Rightarrow> string" where
  "canonical_case upper [] = []"
| "canonical_case upper (c # cs) =
     (let n = (of_char c :: nat);
          c' = (if upper \<and> 97 \<le> n \<and> n \<le> 122 then char_of (n - 32)
                else if \<not> upper \<and> 65 \<le> n \<and> n \<le> 90 then char_of (n + 32)
                else c)
      in c' # canonical_case (c' = CHR ''-'') cs)"

definition CanonicalMIMEHeaderKey :: "string \<Rightarrow> string" where
  "CanonicalMIMEHeaderKey s = (if list_all isTokenByte s then canonical_case True s else s)"

definition Header_Set :: "http_Header \<Rightarrow> string \<Rightarrow> string \<Rightarrow> http_Header" where
  "Header_Set h k v = h(CanonicalMIMEHeaderKey k := [v])"

definition Header_Add :: "http_Header \<Rightarrow> string \<Rightarrow> string \<Rightarrow> http_Header" where
  "Header_Add h k v = h(CanonicalMIMEHeaderKey k := h (CanonicalMIMEHeaderKey k) @ [v])"

definition Header_Get :: "http_Header \<Rightarrow> string \<Rightarrow> string" where
  "Header_Get h k = (case h (CanonicalMIMEHeaderKey k) of [] \<Rightarrow> [] | v # _ \<Rightarrow> v)"

subsection \<open>URLs and query values\<close>

text \<open>\<open>url.URL\<close>, with the fields the client touches, and \<open>url.Values\<close>.\<close>

record URL =
  Scheme :: string
  Host :: string
  Path :: string
  RawQuery :: string
  Fragment :: string

type_synonym Values = "(string \<times> string list) list"

text \<open>
  \<open>net/url\<close> and \<open>go-querystring\<close>: \<open>url.Parse\<close>, \<open>URL.String\<close>,
  \<open>URL.Query\<close>, \<open>Values.Encode\<close>, \<open>query.Values\<close> on an options value, and
  \<open>url_Resolve base ref\<close> for the string form of \<open>base.Parse(ref)\<close>.
\<close>

record 'o url_lib =
  url_Parse :: "string \<Rightarrow> lib_error + URL"
  url_String :: "URL \<Rightarrow> string"
  url_Query :: "URL \<Rightarrow> Values"
  Values_Encode :: "Values \<Rightarrow> string"
  query_Values :: "'o \<Rightarrow> lib_error + Values"
  url_Resolve :: "string \<Rightarrow> string \<Rightarrow> lib_error + string"

text \<open>
  The argument \<open>opt\<close> of \<open>addOptions\<close>: a nil pointer, or anything else
  (\<open>v.Kind() == reflect.Ptr && v.IsNil()\<close> tells only these two apart).
\<close>

datatype 'o options = NilPtr | NonNil 'o

text \<open>The loop \<open>for k, v := range newValues { origValues[k] = v }\<close>.\<close>

definition mergeValues :: "Values \<Rightarrow> Values \<Rightarrow> Values" where
  "mergeValues newValues origValues = fold (\<lambda>(k, v) m. AList.update k v m) newValues origValues"

definition addOptions :: "'o url_lib \<Rightarrow> string \<Rightarrow> 'o options \<Rightarrow> string \<times> lib_error option" where
  "addOptions lib s opt =
     (case opt of
        NilPtr \<Rightarrow> (s, None)
      | NonNil ov \<Rightarrow>
          (case url_Parse lib s of
             Inl err \<Rightarrow> (s, Some err)
           | Inr origURL \<Rightarrow>
               (let origValues = url_Query lib origURL
                in (case query_Values lib ov of
                      Inl err \<Rightarrow> (s, Some err)
                    | Inr newValues \<Rightarrow>
                        (url_String lib
                           (origURL\<lparr>RawQuery := Values_Encode lib (mergeValues newValues origValues)\<rparr>),
                         None)))))"

subsection \<open>Client construction\<close>

definition libraryVersion :: string where "libraryVersion = ''1.0.0''"
definition defaultBaseURL :: string where "defaultBaseURL = ''https://api.cloudcraft.co/''"
definition userAgent :: string where "userAgent = ''cloudcraft-go/'' @ libraryVersion"
definition mediaType :: string where "mediaType = ''application/json''"

text \<open>
  \<open>NewClient\<close>: \<open>url.Parse\<close> accepts the constant \<open>defaultBaseURL\<close>, whose string
  form is the constant itself.
\<close>

definition NewClient :: Client where
  "NewClient = \<lparr>BaseURL = defaultBaseURL, UserAgent = userAgent, onRequestCompleted = False,
                 headers = []\<rparr>"

text \<open>\<open>ClientOpt\<close>: the client as the option leaves it, or the option's error.\<close>

type_synonym ClientOpt = "Client \<Rightarrow> lib_error + Client"

fun New_opts :: "Client \<Rightarrow> ClientOpt list \<Rightarrow> lib_error + Client" where
  "New_opts c [] = Inr c"
| "New_opts c (opt # opts) = (case opt c of Inl err \<Rightarrow> Inl err | Inr c' \<Rightarrow> New_opts c' opts)"

definition New :: "ClientOpt list \<Rightarrow> lib_error + Client" where
  "New opts = New_opts NewClient opts"

definition SetBaseURL :: "'o url_lib \<Rightarrow> string \<Rightarrow> ClientOpt" where
  "SetBaseURL lib bu c =
     (case url_Parse lib bu of Inl err \<Rightarrow> Inl err | Inr u \<Rightarrow> Inr (c\<lparr>BaseURL := url_String lib u\<rparr>))"

definition SetUserAgent :: "string \<Rightarrow> ClientOpt" where
  "SetUserAgent ua c = Inr (c\<lparr>UserAgent := ua @ '' '' @ UserAgent c\<rparr>)"

definition SetRequestHeaders :: "(string \<times> string) list \<Rightarrow> ClientOpt" where
  "SetRequestHeaders hs c =
     Inr (c\<lparr>headers := fold (\<lambda>(k, v) m. AList.update k v m) hs (headers c)\<rparr>)"

text \<open>\<open>NewFromToken\<close> drops the error of \<open>New\<close>; the client is nil when there is one.\<close>

definition NewFromToken :: "string \<Rightarrow> Client option" where
  "NewFromToken token =
     (case New [SetRequestHeaders [(''Authorization'', ''Bearer'' @ token)]] of
        Inl _ \<Rightarrow> None
      | Inr client \<Rightarrow> Some client)"

definition OnRequestCompleted :: "Client \<Rightarrow> bool \<Rightarrow> Client" where
  "OnRequestCompleted c rc = c\<lparr>onRequestCompleted := rc\<rparr>"

subsection \<open>NewRequest\<close>

definition MethodGet :: string where "MethodGet = ''GET''"
definition MethodHead :: string where "MethodHead = ''HEAD''"
definition MethodOptions :: string where "MethodOptions = ''OPTIONS''"
definition MethodPost :: string where "MethodPost = ''POST''"
definition MethodPut :: string where "MethodPut = ''PUT''"
definition MethodDelete :: string where "MethodDelete = ''DELETE''"

text \<open>
  \<open>http.NewRequest\<close>: an empty method means GET, a method must be a token, the URL
  must parse; the header starts empty.
\<close>

definition http_NewRequest :: "'o url_lib \<Rightarrow> string \<Rightarrow> string \<Rightarrow> string option \<Rightarrow> lib_error + http_Request" where
  "http_NewRequest lib method url body =
     (let m = (if method = [] then ''GET'' else method)
      in if \<not> list_all isTokenByte m then Inl ''net/http: invalid method''
         else (case url_Parse lib url of
                 Inl err \<Rightarrow> Inl err
               | Inr u \<Rightarrow> Inr \<lparr>Method = m, URL = url_String lib u, Header = (\<lambda>_. []), ReqBody = body\<rparr>))"

text \<open>The tail of \<open>NewRequest\<close>: static headers are added, then Accept and User-Agent set.\<close>

definition NewRequest_headers :: "Client \<Rightarrow> http_Request \<Rightarrow> http_Request" where
  "NewRequest_headers c req =
     req\<lparr>Header :=
          Header_Set
            (Header_Set (fold (\<lambda>(k, v) h. Header_Add h k v) (headers c) (Header req))
               ''Accept'' mediaType)
            ''User-Agent'' (UserAgent c)\<rparr>"

definition NewRequest ::
  "'o url_lib \<Rightarrow> ('v, 'b) json_lib \<Rightarrow> Client \<Rightarrow> string \<Rightarrow> string \<Rightarrow> 'b option \<Rightarrow> lib_error + http_Request" where
  "NewRequest ulib jlib c method urlStr body =
     (case url_Resolve ulib (BaseURL c) urlStr of
        Inl err \<Rightarrow> Inl err
      | Inr u \<Rightarrow>
          (if method = MethodGet \<or> method = MethodHead \<or> method = MethodOptions
           then (case http_NewRequest ulib method u None of
                   Inl err \<Rightarrow> Inl err
                 | Inr req \<Rightarrow> Inr (NewRequest_headers c req))
           else (case (case body of None \<Rightarrow> Inr [] | Some b \<Rightarrow> json_Encode jlib b) of
                   Inl err \<Rightarrow> Inl err
                 | Inr buf \<Rightarrow>
                     (case http_NewRequest ulib method u (Some buf) of
                        Inl err \<Rightarrow> Inl err
                      | Inr req \<Rightarrow>
                          Inr (NewRequest_headers c
                                 (req\<lparr>Header := Header_Set (Header req) ''Content-Type'' mediaType\<rparr>))))))"

subsection \<open>The resource services\<close>

text \<open>
  A service with what its calls need: the client it points to, the transport behind
  the client, the libraries, and \<open>fresh\<close>, the value that \<open>new(T)\<close> allocates as
  the target of decoding.
\<close>

record ('v, 'b, 'o) ServiceOp =
  client :: Client
  http :: transport
  urls :: "'o url_lib"
  json :: "('v, 'b) json_lib"
  fresh :: 'v

text \<open>
  The results of a service call (for \<open>Delete\<close>, which returns no value, \<open>svc_value\<close>
  is \<open>None\<close>), the requests it built and the requests the transport received.
\<close>

record 'v ServiceResult =
  svc_value :: "'v option"
  svc_response :: "Response option"
  svc_err :: "error option"
  svc_built :: "http_Request list"
  svc_sent :: "http_Request list"

text \<open>
  Modelled from the spec: \<open>NewArgError\<close> is defined in a file that is not under
  \<open>src/\<close>; it builds the \<open>ArgumentError\<close> of a required argument from the
  argument's name and the reason.
\<close>

definition NewArgError :: "string \<Rightarrow> string \<Rightarrow> error" where
  "NewArgError name reason = ArgError name reason"

definition arg_failure :: "string \<Rightarrow> string \<Rightarrow> 'v ServiceResult outcome option" where
  "arg_failure name reason =
     Some (Return \<lparr>svc_value = None, svc_response = None, svc_err = Some (NewArgError name reason),
                   svc_built = [], svc_sent = []\<rparr>)"

text \<open>
  What every operation does once its path is known: \<open>NewRequest\<close>, then \<open>Do\<close>,
  then the value only when \<open>Do\<close> returned no error.
\<close>

definition request_and_do ::
  "('v, 'b, 'o) ServiceOp \<Rightarrow> string \<Rightarrow> string \<Rightarrow> 'b option \<Rightarrow> 'v Dest \<Rightarrow> 'v ServiceResult outcome option" where
  "request_and_do s method path body v =
     (case NewRequest (urls s) (json s) (client s) method path body of
        Inl err \<Rightarrow>
          Some (Return \<lparr>svc_value = None, svc_response = None, svc_err = Some (LibError err),
                        svc_built = [], svc_sent = []\<rparr>)
      | Inr req \<Rightarrow>
          (case Do (client s) (http s) (json s) req v of
             None \<Rightarrow> None
           | Some (Panic m) \<Rightarrow> Some (Panic m)
           | Some (Return d) \<Rightarrow>
               Some (Return
                 \<lparr>svc_value =
                    (case ret_err d of
                       Some _ \<Rightarrow> None
                     | None \<Rightarrow> (case dest d of ValueDest x \<Rightarrow> Some x | _ \<Rightarrow> None)),
                  svc_response = ret_response d, svc_err = ret_err d,
                  svc_built = [req], svc_sent = sent d\<rparr>)))"

definition blueprintBasePath :: string where "blueprintBasePath = ''blueprint''"
definition awsAccountBasePath :: string where "awsAccountBasePath = ''aws/account''"
definition userBasePath :: string where "userBasePath = ''user''"

record 'o BlueprintExportRequest =
  Format :: string
  ExportParameters :: "'o options"

record 'o AwsAccountSnapshotRequest =
  Format :: string
  Region :: string
  SnapshotParameters :: "'o options"

definition Blueprints_List :: "('v, 'b, 'o) ServiceOp \<Rightarrow> 'v ServiceResult outcome option" where
  "Blueprints_List s = request_and_do s MethodGet blueprintBasePath None (ValueDest (fresh s))"

definition Blueprints_Get :: "('v, 'b, 'o) ServiceOp \<Rightarrow> string \<Rightarrow> 'v ServiceResult outcome option" where
  "Blueprints_Get s blueprintId =
     (if blueprintId = [] then arg_failure ''blueprintId'' ''cannot be empty''
      else request_and_do s MethodGet (blueprintBasePath @ ''/'' @ blueprintId) None
             (ValueDest (fresh s)))"

definition Blueprints_Create :: "('v, 'b, 'o) ServiceOp \<Rightarrow> 'b option \<Rightarrow> 'v ServiceResult outcome option" where
  "Blueprints_Create s createRequest =
     (case createRequest of
        None \<Rightarrow> arg_failure ''createRequest'' ''cannot be nil''
      | Some cr \<Rightarrow> request_and_do s MethodPost blueprintBasePath (Some cr) (ValueDest (fresh s)))"

definition Blueprints_Update ::
  "('v, 'b, 'o) ServiceOp \<Rightarrow> string \<Rightarrow> 'b option \<Rightarrow> 'v ServiceResult outcome option" where
  "Blueprints_Update s blueprintId updateRequest =
     (if blueprintId = [] then arg_failure ''blueprintId'' ''cannot be empty''
      else (case updateRequest of
              None \<Rightarrow> arg_failure ''updateRequest'' ''cannot be nil''
            | Some ur \<Rightarrow>
                request_and_do s MethodPut blueprintBasePath (Some ur) (ValueDest (fresh s))))"

definition Blueprints_Delete :: "('v, 'b, 'o) ServiceOp \<Rightarrow> string \<Rightarrow> 'v ServiceResult outcome option" where
  "Blueprints_Delete s blueprintId =
     (if blueprintId = [] then arg_failure ''blueprintId'' ''cannot be empty''
      else request_and_do s MethodDelete (blueprintBasePath @ ''/'' @ blueprintId) None NilDest)"

text \<open>
  \<open>Export\<close> reads \<open>exportRequest.Format\<close> with no test of the pointer: on a nil
  request that is a nil pointer dereference.
\<close>

definition Blueprints_Export ::
  "('v, 'b, 'o) ServiceOp \<Rightarrow> string \<Rightarrow> 'o BlueprintExportRequest option \<Rightarrow> 'v ServiceResult outcome option" where
  "Blueprints_Export s blueprintId exportRequest =
     (if blueprintId = [] then arg_failure ''blueprintId'' ''cannot be empty''
      else (case exportRequest of
              None \<Rightarrow> Some (Panic ''invalid memory address or nil pointer dereference'')
            | Some er \<Rightarrow>
                (case addOptions (urls s)
                        (blueprintBasePath @ ''/'' @ blueprintId @ ''/'' @ BlueprintExportRequest.Format er)
                        (ExportParameters er) of
                   (_, Some err) \<Rightarrow>
                     Some (Return \<lparr>svc_value = None, svc_response = None,
                                   svc_err = Some (LibError err), svc_built = [], svc_sent = []\<rparr>)
                 | (path, None) \<Rightarrow> request_and_do s MethodGet path None (ValueDest (fresh s)))))"

definition AwsAccounts_List :: "('v, 'b, 'o) ServiceOp \<Rightarrow> 'v ServiceResult outcome option" where
  "AwsAccounts_List s = request_and_do s MethodGet awsAccountBasePath None (ValueDest (fresh s))"

definition AwsAccounts_Get :: "('v, 'b, 'o) ServiceOp \<Rightarrow> string \<Rightarrow> 'v ServiceResult outcome option" where
  "AwsAccounts_Get s awsAccountID =
     (if awsAccountID = [] then arg_failure ''awsAccountID'' ''cannot be empty''
      else request_and_do s MethodGet (awsAccountBasePath @ ''/'' @ awsAccountID) None
             (ValueDest (fresh s)))"

definition AwsAccounts_Create :: "('v, 'b, 'o) ServiceOp \<Rightarrow> 'b option \<Rightarrow> 'v ServiceResult outcome option" where
  "AwsAccounts_Create s createRequest =
     (case createRequest of
        None \<Rightarrow> arg_failure ''createRequest'' ''cannot be nil''
      | Some cr \<Rightarrow> request_and_do s MethodPost awsAccountBasePath (Some cr) (ValueDest (fresh s)))"

definition AwsAccounts_Update ::
  "('v, 'b, 'o) ServiceOp \<Rightarrow> string \<Rightarrow> 'b option \<Rightarrow> 'v ServiceResult outcome option" where
  "AwsAccounts_Update s awsAccountID updateRequest =
     (if awsAccountID = [] then arg_failure ''awsAccountID'' ''cannot be empty''
      else (case updateRequest of
              None \<Rightarrow> arg_failure ''updateRequest'' ''cannot be nil''
            | Some ur \<Rightarrow>
                request_and_do s MethodPut (awsAccountBasePath @ ''/'' @ awsAccountID) (Some ur)
                  (ValueDest (fresh s))))"

definition AwsAccounts_Delete :: "('v, 'b, 'o) ServiceOp \<Rightarrow> string \<Rightarrow> 'v ServiceResult outcome option" where
  "AwsAccounts_Delete s awsAccountID =
     (if awsAccountID = [] then arg_failure ''awsAccountID'' ''cannot be empty''
      else request_and_do s MethodDelete (awsAccountBasePath @ ''/'' @ awsAccountID) None NilDest)"

text \<open>\<open>Snapshot\<close> reads \<open>snapshotRequest.Region\<close> with no test of the pointer.\<close>

definition AwsAccounts_Snapshot ::
  "('v, 'b, 'o) ServiceOp \<Rightarrow> string \<Rightarrow> 'o AwsAccountSnapshotRequest option \<Rightarrow> 'v ServiceResult outcome option" where
  "AwsAccounts_Snapshot s awsAccountID snapshotRequest =
     (if awsAccountID = [] then arg_failure ''awsAccountID'' ''cannot be empty''
      else (case snapshotRequest of
              None \<Rightarrow> Some (Panic ''invalid memory address or nil pointer dereference'')
            | Some sr \<Rightarrow>
                (case addOptions (urls s)
                        (awsAccountBasePath @ ''/'' @ awsAccountID @ ''/'' @ Region sr @ ''/''
                           @ AwsAccountSnapshotRequest.Format sr)
                        (SnapshotParameters sr) of
                   (_, Some err) \<Rightarrow>
                     Some (Return \<lparr>svc_value = None, svc_response = None,
                                   svc_err = Some (LibError err), svc_built = [], svc_sent = []\<rparr>)
                 | (path, None) \<Rightarrow> request_and_do s MethodGet path None (ValueDest (fresh s)))))"

definition AwsAccounts_IamParameters :: "('v, 'b, 'o) ServiceOp \<Rightarrow> 'v ServiceResult outcome option" where
  "AwsAccounts_IamParameters s =
     request_and_do s MethodGet (awsAccountBasePath @ ''/iamParameters'') None (ValueDest (fresh s))"

text \<open>
  \<open>Users.Get\<close> formats the identifier, a string, with the verb \<open>%d\<close>, which
  \<open>fmt.Sprintf\<close> renders as \<open>%!d(string=...)\<close>.
\<close>

definition Users_Get :: "('v, 'b, 'o) ServiceOp \<Rightarrow> string \<Rightarrow> 'v ServiceResult outcome option" where
  "Users_Get s userID =
     (if userID = [] then arg_failure ''userID'' ''cannot be empty''
      else request_and_do s MethodGet (userBasePath @ ''/%!d(string='' @ userID @ '')'') None
             (ValueDest (fresh s)))"

definition Users_Me :: "('v, 'b, 'o) ServiceOp \<Rightarrow> 'v ServiceResult outcome option" where
  "Users_Me s = Users_Get s ''me''"

subsection \<open>Sample library behaviour and sample inputs\<close>

text \<open>
  Concrete libraries and inputs for the examples. \<open>sample_Unmarshal\<close> tabulates
  \<open>json.Unmarshal\<close> into an \<open>*ErrorResponse\<close> on three bodies. On the first,
  both fields are stored. The second is no JSON text: the syntax check fails before
  anything is stored. The third is JSON whose \<open>error\<close> member is a number: the
  decoder stores \<open>code\<close>, skips the member that does not fit the string field, and
  returns an \<open>UnmarshalTypeError\<close> (\<open>encoding/json\<close>: "Unmarshal skips that field
  and completes the unmarshaling as best it can"). Every other body is treated as the
  second.
\<close>

definition sample_Unmarshal :: "string \<Rightarrow> ErrorResponse \<Rightarrow> ErrorResponse \<times> lib_error option" where
  "sample_Unmarshal dat e =
     (if dat = ''{\"error\":\"not found\",\"code\":404}''
      then (e\<lparr>Message := ''not found'', Code := 404\<rparr>, None)
      else if dat = ''{\"code\":404,\"error\":123}''
      then (e\<lparr>Code := 404\<rparr>,
            Some ''json: cannot unmarshal number into Go struct field ErrorResponse.error of type string'')
      else (e, Some ''invalid character looking for beginning of value''))"

text \<open>
  A decoder whose target is the text it read (an empty stream is \<open>EOF\<close>), and an
  encoder of texts that appends the newline \<open>Encode\<close> writes.
\<close>

definition sample_json :: "(string, string) json_lib" where
  "sample_json =
     \<lparr>json_Unmarshal = sample_Unmarshal,
      json_Decode = (\<lambda>b v. if data b = [] then (b, v, Some ''EOF'') else (b\<lparr>data := []\<rparr>, data b, None)),
      json_Encode = (\<lambda>b. Inr (b @ [CHR 0x0A]))\<rparr>"

text \<open>
  A URL library for relative references without fragment: the query starts after the
  first question mark, a reference is appended to its base, an options value is
  already a list of keys with values, and \<open>Query\<close> and \<open>Encode\<close> are tabulated
  on the query strings of the examples.
\<close>

definition sample_urls :: "Values url_lib" where
  "sample_urls =
     \<lparr>url_Parse = (\<lambda>s. Inr \<lparr>Scheme = [], Host = [], Path = takeWhile (\<lambda>c. c \<noteq> CHR ''?'') s,
                              RawQuery = drop 1 (dropWhile (\<lambda>c. c \<noteq> CHR ''?'') s), Fragment = []\<rparr>),
      url_String = (\<lambda>u. Path u @ (if RawQuery u = [] then [] else ''?'' @ RawQuery u)),
      url_Query = (\<lambda>u. if RawQuery u = ''grid=true&scale=1''
                        then [(''grid'', [''true'']), (''scale'', [''1''])] else []),
      Values_Encode = (\<lambda>m. if m = [(''grid'', [''false'']), (''scale'', [''1'']), (''width'', [''800''])]
                            then ''grid=false&scale=1&width=800'' else []),
      query_Values = Inr,
      url_Resolve = (\<lambda>base ref. Inr (base @ ref))\<rparr>"

definition sample_request :: http_Request where
  "sample_request =
     \<lparr>Method = ''GET'', URL = ''https://api.cloudcraft.co/blueprint/xyz'', Header = (\<lambda>_. []),
      ReqBody = None\<rparr>"

definition sample_response :: "int \<Rightarrow> string \<Rightarrow> http_Response" where
  "sample_response status body =
     \<lparr>StatusCode = status, ContentLength = int (length body),
      Body = \<lparr>data = body, rerr = None, cerr = None, closed = False\<rparr>, Request = sample_request\<rparr>"

text \<open>A transport that answers 202 twice and then gives the response \<open>r\<close>.\<close>

definition sample_transport :: "http_Response \<Rightarrow> transport" where
  "sample_transport r n req = (if n < 2 then (Some (sample_response 202 []), None) else (Some r, None))"

text \<open>A transport whose exchanges all fail.\<close>

definition failing_transport :: transport where
  "failing_transport n req = (None, Some ''dial tcp: i/o timeout'')"

text \<open>A response with status 200 whose body fails to close.\<close>

definition close_failing_response :: http_Response where
  "close_failing_response =
     \<lparr>StatusCode = 200, ContentLength = 2,
      Body = \<lparr>data = ''{}'', rerr = None, cerr = Some ''close failed'', closed = False\<rparr>,
      Request = sample_request\<rparr>"

text \<open>A client configured with a static Content-Type header.\<close>

definition content_type_client :: Client where
  "content_type_client = NewClient\<lparr>headers := [(''Content-Type'', ''text/plain'')]\<rparr>"

section \<open>Theorems\<close>

subsection \<open>The retry loop\<close>

lemma Do_retry_skip:
  "(\<And>j. j < k \<Longrightarrow> \<exists>r e. t (n + j) req = (Some r, e) \<and> StatusCode r = 202)
     \<Longrightarrow> Do_retry t req n = Do_retry t req (n + k)"
proof (induction k arbitrary: n)
  case 0
  then show ?case by simp
next
  case (Suc k)
  from Suc.prems [of 0] obtain r e where r: "t n req = (Some r, e)" "StatusCode r = 202"
    by auto
  have "Do_retry t req n = Do_retry t req (Suc n)"
    by (subst Do_retry.simps) (simp add: r)
  also have "\<dots> = Do_retry t req (Suc n + k)"
  proof (rule Suc.IH)
    fix j assume "j < k"
    then have "Suc j < Suc k" by simp
    from Suc.prems [OF this] show "\<exists>r e. t (Suc n + j) req = (Some r, e) \<and> StatusCode r = 202"
      by simp
  qed
  finally show ?case by simp
qed

lemma Do_retry_stop:
  "t n req = (Some r, e) \<Longrightarrow> StatusCode r \<noteq> 202 \<Longrightarrow> Do_retry t req n = Some (Return (Suc n, r, e))"
  by (subst Do_retry.simps) simp

lemma Do_retry_nil:
  "t n req = (None, e)
     \<Longrightarrow> Do_retry t req n = Some (Panic ''invalid memory address or nil pointer dereference'')"
  by (subst Do_retry.simps) simp

lemma Do_retry_first_other:
  assumes "\<forall>j<n. \<exists>r e. t j req = (Some r, e) \<and> StatusCode r = 202"
    and "t n req = (Some resp, e)" and "StatusCode resp \<noteq> 202"
  shows "Do_retry t req 0 = Some (Return (Suc n, resp, e))"
proof -
  have "Do_retry t req 0 = Do_retry t req (0 + n)"
    by (rule Do_retry_skip) (use assms(1) in simp)
  with Do_retry_stop [of t n req resp e] assms(2,3) show ?thesis by simp
qed

lemma Do_final:
  assumes "\<forall>j<n. \<exists>r e. t j req = (Some r, e) \<and> StatusCode r = 202"
    and "t n req = (Some resp, e)" and "StatusCode resp \<noteq> 202"
  shows "Do c t lib req v = Some (Return (Do_process c lib req v (Suc n) resp e))"
  using Do_retry_first_other [of n t req resp e] assms by (simp add: Do_def)

lemma Do_retry_returns_not_forever:
  assumes "Do_retry t' req' n' = Some y"
  shows "\<not> (\<forall>j. \<exists>r e. t' j req' = (Some r, e) \<and> StatusCode r = 202)"
proof (rule Do_retry.raw_induct
    [where P = "\<lambda>t req n y. \<not> (\<forall>j. \<exists>r e. t j req = (Some r, e) \<and> StatusCode r = 202)", OF _ assms])
  fix f :: "transport \<Rightarrow> http_Request \<Rightarrow> nat \<Rightarrow> (nat \<times> http_Response \<times> lib_error option) outcome option"
  fix t req n ta
  assume IH: "\<And>t req n y. f t req n = Some y
      \<Longrightarrow> \<not> (\<forall>j. \<exists>r e. t j req = (Some r, e) \<and> StatusCode r = 202)"
  assume step: "(case t n req of
        (None, err) \<Rightarrow> Some (Panic ''invalid memory address or nil pointer dereference'')
      | (Some resp, err) \<Rightarrow>
          if StatusCode resp = 202 then f t req (Suc n)
          else Some (Return (Suc n, resp, err))) = Some ta"
  show "\<not> (\<forall>j. \<exists>r e. t j req = (Some r, e) \<and> StatusCode r = 202)"
  proof
    assume all: "\<forall>j. \<exists>r e. t j req = (Some r, e) \<and> StatusCode r = 202"
    then obtain r e where r: "t n req = (Some r, e)" "StatusCode r = 202" by blast
    with step have "f t req (Suc n) = Some ta" by simp
    from IH [OF this] all show False by blast
  qed
qed

text \<open>When every exchange answers 202, \<open>Do\<close> never returns.\<close>

lemma Do_202_forever:
  assumes "\<forall>j. \<exists>r e. t j req = (Some r, e) \<and> StatusCode r = 202"
  shows "Do c t lib req v = None"
proof -
  have "Do_retry t req 0 = None"
    using Do_retry_returns_not_forever [of t req 0] assms by (cases "Do_retry t req 0") auto
  then show ?thesis by (simp add: Do_def)
qed

subsection \<open>What the end of \<open>Do\<close> does with a response\<close>

lemma Do_return_simps [simp]:
  "ret_response (Do_return reqs cbs resp b v dec r e) = r"
  "ret_err (Do_return reqs cbs resp b v dec r e) = e"
  "sent (Do_return reqs cbs resp b v dec r e) = reqs"
  "completed (Do_return reqs cbs resp b v dec r e) = cbs"
  "dest (Do_return reqs cbs resp b v dec r e) = v"
  "decoded (Do_return reqs cbs resp b v dec r e) = dec"
  "closed (body_after (Do_return reqs cbs resp b v dec r e))"
  "err_var (Do_return reqs cbs resp b v dec r e)
     = (if e = None then map_option LibError (cerr b) else e)"
  by (simp_all add: Do_return_def Do_deferred_def Close_def io_CopyN_Discard_def Let_def split: prod.splits)

lemma CheckResponse_ok:
  "200 \<le> StatusCode r \<Longrightarrow> StatusCode r \<le> 299 \<Longrightarrow> CheckResponse um r = (None, Body r)"
  by (simp add: CheckResponse_def)





lemma Do_process_success_NilDest:
  assumes "200 \<le> StatusCode resp" "StatusCode resp \<le> 299"
  shows "Do_process c lib req NilDest n resp None =
           Do_return (replicate n req) (if onRequestCompleted c then [(req, resp)] else []) resp
             (Body resp) NilDest False (Some (newResponse resp)) None"
  by (simp add: Do_process_def CheckResponse_ok [OF assms])

lemma Do_process_success_WriterDest:
  assumes "200 \<le> StatusCode resp" "StatusCode resp \<le> 299"
  shows "Do_process c lib req (WriterDest w) n resp None =
           (case io_Copy w (Body resp) of
              (w', b2, Some x) \<Rightarrow>
                Do_return (replicate n req) (if onRequestCompleted c then [(req, resp)] else []) resp
                  b2 (WriterDest w') False None (Some (LibError x))
            | (w', b2, None) \<Rightarrow>
                Do_return (replicate n req) (if onRequestCompleted c then [(req, resp)] else []) resp
                  b2 (WriterDest w') False (Some (newResponse resp)) None)"
  by (simp add: Do_process_def CheckResponse_ok [OF assms] split: prod.splits option.splits)

lemma Do_process_success_ValueDest:
  assumes "200 \<le> StatusCode resp" "StatusCode resp \<le> 299"
  shows "Do_process c lib req (ValueDest x) n resp None =
           (case json_Decode lib (Body resp) x of
              (b2, x', Some y) \<Rightarrow>
                Do_return (replicate n req) (if onRequestCompleted c then [(req, resp)] else []) resp
                  b2 (ValueDest x') True None (Some (LibError y))
            | (b2, x', None) \<Rightarrow>
                Do_return (replicate n req) (if onRequestCompleted c then [(req, resp)] else []) resp
                  b2 (ValueDest x') True (Some (newResponse resp)) None)"
  by (simp add: Do_process_def CheckResponse_ok [OF assms] split: prod.splits option.splits)

lemma sample_transport_202:
  "\<forall>j<2. \<exists>r e. sample_transport R j q = (Some r, e) \<and> StatusCode r = 202"
  by (simp add: sample_transport_def sample_response_def)

lemma sample_transport_final: "sample_transport R 2 q = (Some R, None)"
  by (simp add: sample_transport_def)



text \<open>
  C2 (the code crashes instead): a transport failure gives no response, and the loop
  test reads the status of the nil response before \<open>err\<close> is looked at.
\<close>

theorem Do_transport_failure_panics:
  "failing_transport 0 req = (None, Some ''dial tcp: i/o timeout'')
   \<and> Do c failing_transport lib req v = Some (Panic ''invalid memory address or nil pointer dereference'')"
proof -
  have f: "failing_transport 0 req = (None, Some ''dial tcp: i/o timeout'')"
    by (simp add: failing_transport_def)
  have "Do_retry failing_transport req 0 = Some (Panic ''invalid memory address or nil pointer dereference'')"
    using f by (rule Do_retry_nil)
  then show ?thesis using f by (simp add: Do_def)
qed

text \<open>
  C5: when the first response whose status is not 202 has a status in 200..299, the
  destination decides what \<open>Do\<close> does with its body. An \<open>io.Writer\<close> receives the
  whole body behind what it already holds and nothing is decoded; the call fails only
  with the error of the copy. Any other non-nil destination is decoded into, and the
  decoder's error is the error of the call. With a nil destination nothing is decoded,
  the body is closed and the call succeeds.
\<close>

theorem Do_success_by_destination:
  assumes "\<forall>j<n. \<exists>r e. t j req = (Some r, e) \<and> StatusCode r = 202"
    and "t n req = (Some resp, None)"
    and "200 \<le> StatusCode resp" and "StatusCode resp \<le> 299" and "StatusCode resp \<noteq> 202"
  shows "\<exists>d. Do c t lib req v = Some (Return d)
           \<and> (case v of
                 WriterDest w \<Rightarrow>
                   \<not> decoded d
                   \<and> (if data (Body resp) \<noteq> [] \<and> werr w \<noteq> None
                      then dest d = WriterDest w \<and> ret_err d = map_option LibError (werr w)
                           \<and> ret_response d = None
                      else dest d = WriterDest (w\<lparr>written := written w @ data (Body resp)\<rparr>)
                           \<and> ret_err d = map_option LibError (rerr (Body resp))
                           \<and> ret_response d
                               = (if rerr (Body resp) = None then Some (newResponse resp) else None))
               | ValueDest x \<Rightarrow>
                   decoded d
                   \<and> (case json_Decode lib (Body resp) x of
                        (b, x', None) \<Rightarrow>
                          dest d = ValueDest x' \<and> ret_err d = None
                          \<and> ret_response d = Some (newResponse resp)
                      | (b, x', Some e) \<Rightarrow>
                          ret_err d = Some (LibError e) \<and> ret_response d = None)
               | NilDest \<Rightarrow>
                   \<not> decoded d \<and> dest d = NilDest \<and> ret_err d = None
                   \<and> ret_response d = Some (newResponse resp) \<and> closed (body_after d))"
proof -
  let ?d = "Do_process c lib req v (Suc n) resp None"
  have run: "Do c t lib req v = Some (Return ?d)"
    using Do_final [of n t req resp None c lib v] assms(1,2,5) by simp
  have ok: "200 \<le> StatusCode resp" "StatusCode resp \<le> 299" by fact+
  show ?thesis
  proof (cases v)
    case NilDest
    then show ?thesis using run
      by (simp add: Do_process_success_NilDest [OF ok])
  next
    case (WriterDest w)
    then show ?thesis using run
      by (auto simp add: Do_process_success_WriterDest [OF ok] io_Copy_def split: option.splits)
  next
    case (ValueDest x)
    then show ?thesis using run
      by (auto simp add: Do_process_success_ValueDest [OF ok] split: prod.splits option.splits)
  qed
qed

lemma sample_transport_steps:
  "sample_transport R 0 q = (Some (sample_response 202 []), None)"
  "sample_transport R 1 q = (Some (sample_response 202 []), None)"
  "StatusCode (sample_response 202 []) = 202"
  by (simp_all add: sample_transport_def sample_response_def)

theorem Do_success_by_destination_witness:
  "sample_transport (sample_response 200 ''{}'') 0 sample_request = (Some (sample_response 202 []), None)
   \<and> sample_transport (sample_response 200 ''{}'') 1 sample_request = (Some (sample_response 202 []), None)
   \<and> StatusCode (sample_response 202 []) = 202
   \<and> sample_transport (sample_response 200 ''{}'') 2 sample_request = (Some (sample_response 200 ''{}''), None)
   \<and> 200 \<le> StatusCode (sample_response 200 ''{}'') \<and> StatusCode (sample_response 200 ''{}'') \<le> 299
   \<and> StatusCode (sample_response 200 ''{}'') \<noteq> 202
   \<and> (\<exists>d. Do NewClient (sample_transport (sample_response 200 ''{}'')) sample_json sample_request
             (WriterDest \<lparr>written = ''abc'', werr = None\<rparr>) = Some (Return d)
          \<and> \<not> decoded d \<and> dest d = WriterDest \<lparr>written = ''abc{}'', werr = None\<rparr>
          \<and> ret_err d = None \<and> ret_response d = Some (newResponse (sample_response 200 ''{}'')))
   \<and> (\<exists>d. Do NewClient (sample_transport (sample_response 200 ''{}'')) sample_json sample_request
             (ValueDest []) = Some (Return d)
          \<and> decoded d \<and> dest d = ValueDest ''{}''
          \<and> ret_err d = None \<and> ret_response d = Some (newResponse (sample_response 200 ''{}'')))
   \<and> (\<exists>d. Do NewClient (sample_transport (sample_response 200 [])) sample_json sample_request
             (ValueDest []) = Some (Return d)
          \<and> decoded d \<and> ret_err d = Some (LibError ''EOF'') \<and> ret_response d = None)
   \<and> (\<exists>d. Do NewClient (sample_transport (sample_response 200 ''{}'')) sample_json sample_request
             (NilDest :: string Dest) = Some (Return d)
          \<and> \<not> decoded d \<and> dest d = NilDest \<and> ret_err d = None
          \<and> ret_response d = Some (newResponse (sample_response 200 ''{}'')) \<and> closed (body_after d))"
proof -
  let ?R = "sample_response 200 ''{}''"
  let ?E = "sample_response 200 []"
  have h1: "\<forall>j<2. \<exists>r e. sample_transport R j sample_request = (Some r, e) \<and> StatusCode r = 202" for R
    by (rule sample_transport_202)
  have h2: "sample_transport R 2 sample_request = (Some R, None)" for R
    by (rule sample_transport_final)
  have h3: "200 \<le> StatusCode (sample_response 200 b)" "StatusCode (sample_response 200 b) \<le> 299"
    "StatusCode (sample_response 200 b) \<noteq> 202" for b
    by (simp_all add: sample_response_def)
  have body: "data (Body (sample_response 200 b)) = b" "rerr (Body (sample_response 200 b)) = None" for b
    by (simp_all add: sample_response_def)
  have dec: "json_Decode sample_json (Body ?R) [] = ((Body ?R)\<lparr>data := []\<rparr>, ''{}'', None)"
    "json_Decode sample_json (Body ?E) [] = (Body ?E, [], Some ''EOF'')"
    by (simp_all add: sample_json_def sample_response_def)
  have inst: "\<exists>d. Do NewClient (sample_transport (sample_response 200 b)) sample_json sample_request v
                 = Some (Return d)
           \<and> (case v of
                 WriterDest w \<Rightarrow>
                   \<not> decoded d
                   \<and> (if data (Body (sample_response 200 b)) \<noteq> [] \<and> werr w \<noteq> None
                      then dest d = WriterDest w \<and> ret_err d = map_option LibError (werr w)
                           \<and> ret_response d = None
                      else dest d = WriterDest (w\<lparr>written := written w @ data (Body (sample_response 200 b))\<rparr>)
                           \<and> ret_err d = map_option LibError (rerr (Body (sample_response 200 b)))
                           \<and> ret_response d
                               = (if rerr (Body (sample_response 200 b)) = None
                                  then Some (newResponse (sample_response 200 b)) else None))
               | ValueDest x \<Rightarrow>
                   decoded d
                   \<and> (case json_Decode sample_json (Body (sample_response 200 b)) x of
                        (b', x', None) \<Rightarrow>
                          dest d = ValueDest x' \<and> ret_err d = None
                          \<and> ret_response d = Some (newResponse (sample_response 200 b))
                      | (b', x', Some e) \<Rightarrow>
                          ret_err d = Some (LibError e) \<and> ret_response d = None)
               | NilDest \<Rightarrow>
                   \<not> decoded d \<and> dest d = NilDest \<and> ret_err d = None
                   \<and> ret_response d = Some (newResponse (sample_response 200 b))
                   \<and> closed (body_after d))" for b and v :: "string Dest"
    using Do_success_by_destination [where n = 2 and t = "sample_transport (sample_response 200 b)"
        and req = sample_request and resp = "sample_response 200 b" and c = NewClient
        and lib = sample_json and v = v] h1 h2 h3 by blast
  have w: "\<exists>d. Do NewClient (sample_transport ?R) sample_json sample_request
             (WriterDest \<lparr>written = ''abc'', werr = None\<rparr>) = Some (Return d)
          \<and> \<not> decoded d \<and> dest d = WriterDest \<lparr>written = ''abc{}'', werr = None\<rparr>
          \<and> ret_err d = None \<and> ret_response d = Some (newResponse ?R)"
    using inst [of "''{}''" "WriterDest \<lparr>written = ''abc'', werr = None\<rparr>"] by (simp add: body)
  have v: "\<exists>d. Do NewClient (sample_transport ?R) sample_json sample_request
             (ValueDest []) = Some (Return d)
          \<and> decoded d \<and> dest d = ValueDest ''{}''
          \<and> ret_err d = None \<and> ret_response d = Some (newResponse ?R)"
    using inst [of "''{}''" "ValueDest []"] by (simp add: dec)
  have e: "\<exists>d. Do NewClient (sample_transport ?E) sample_json sample_request
             (ValueDest []) = Some (Return d)
          \<and> decoded d \<and> ret_err d = Some (LibError ''EOF'') \<and> ret_response d = None"
    using inst [of "[]" "ValueDest []"] by (simp add: dec)
  have n: "\<exists>d. Do NewClient (sample_transport ?R) sample_json sample_request
             (NilDest :: string Dest) = Some (Return d)
          \<and> \<not> decoded d \<and> dest d = NilDest \<and> ret_err d = None
          \<and> ret_response d = Some (newResponse ?R) \<and> closed (body_after d)"
    using inst [of "''{}''" "NilDest"] by simp
  show ?thesis
    using w v e n h2 [of ?R] h3 [of "''{}''"] sample_transport_steps(1,2) [of ?R sample_request]
      sample_transport_steps(3)
    by (intro conjI) assumption+
qed

text \<open>
  C10 (the close error never reaches the caller): a response with status 200 whose
  body fails to close, and a nil destination. No error is pending when the deferred
  function runs; it stores the close error in the local variable \<open>err\<close>, but the
  results of \<open>Do\<close> are unnamed and were fixed by the \<open>return\<close> statement, so the
  call returns the wrapper and no error.
\<close>

theorem Do_close_error_not_returned:
  "cerr (Body close_failing_response) = Some ''close failed''
   \<and> map_option
        (\<lambda>res. case res of
                Panic m \<Rightarrow> None
              | Return d \<Rightarrow> Some (ret_response d, ret_err d, err_var d, drained d, closed (body_after d)))
        (Do NewClient (\<lambda>n q. (Some close_failing_response, None)) sample_json sample_request
           (NilDest :: string Dest))
     = Some (Some (Some (newResponse close_failing_response), None,
                   Some (LibError ''close failed''), True, True))"
proof -
  let ?t = "\<lambda>(n::nat) (q::http_Request). (Some close_failing_response, None :: lib_error option)"
  have s: "StatusCode close_failing_response = 200" "ContentLength close_failing_response = 2"
    "cerr (Body close_failing_response) = Some ''close failed''"
    by (simp_all add: close_failing_response_def)
  have "Do NewClient ?t sample_json sample_request (NilDest :: string Dest)
      = Some (Return (Do_process NewClient sample_json sample_request NilDest (Suc 0)
                        close_failing_response None))"
    by (rule Do_final) (simp_all add: s)
  moreover have "Do_process NewClient sample_json sample_request (NilDest :: string Dest) (Suc 0)
                   close_failing_response None
      = Do_return [sample_request] [] close_failing_response (Body close_failing_response) NilDest
          False (Some (newResponse close_failing_response)) None"
    by (simp add: Do_process_success_NilDest s NewClient_def)
  moreover have "drained (Do_return [sample_request] [] close_failing_response
          (Body close_failing_response) (NilDest :: string Dest) False
          (Some (newResponse close_failing_response)) None)"
    by (simp add: Do_return_def Do_deferred_def s maxBodySlurpSize_def Close_def split: prod.splits)
  ultimately show ?thesis by (simp add: s)
qed

subsection \<open>Error responses\<close>







subsection \<open>Requests\<close>

lemma canonical_keys:
  "CanonicalMIMEHeaderKey ''Content-Type'' = ''Content-Type''"
  "CanonicalMIMEHeaderKey ''Accept'' = ''Accept''"
  "CanonicalMIMEHeaderKey ''User-Agent'' = ''User-Agent''"
  "CanonicalMIMEHeaderKey ''Authorization'' = ''Authorization''"
  by code_simp+

lemma fold_Header_Add:
  "fold (\<lambda>(k, v) h. Header_Add h k v) hs h K
     = h K @ map snd (filter (\<lambda>kv. CanonicalMIMEHeaderKey (fst kv) = K) hs)"
  by (induction hs arbitrary: h) (auto simp add: Header_Add_def)

lemma NewRequest_headers_other:
  assumes "K \<noteq> ''Accept''" "K \<noteq> ''User-Agent''"
  shows "Header (NewRequest_headers c req) K
           = Header req K @ map snd (filter (\<lambda>kv. CanonicalMIMEHeaderKey (fst kv) = K) (headers c))"
  using assms by (simp add: NewRequest_headers_def Header_Set_def canonical_keys fold_Header_Add)

lemma NewRequest_headers_fields [simp]:
  "ReqBody (NewRequest_headers c req) = ReqBody req"
  "Method (NewRequest_headers c req) = Method req"
  "URL (NewRequest_headers c req) = URL req"
  by (simp_all add: NewRequest_headers_def)

lemma http_NewRequest_fields:
  assumes "http_NewRequest lib method u body = Inr req"
  shows "ReqBody req = body" "Header req = (\<lambda>_. [])"
  using assms by (auto simp add: http_NewRequest_def Let_def split: if_splits sum.splits)

text \<open>
  C4, as the code has it: a request that \<open>NewRequest\<close> builds for GET, HEAD or
  OPTIONS has no body, whatever body value is passed, and the only Content-Type values
  it carries are those of the client's static headers (none when the client has no
  such static header). A request it builds for another method has
  \<open>application/json\<close> as its first Content-Type value, the static ones behind it,
  and as its body the JSON encoding of a non-nil body value, or the empty buffer for
  a nil one.
\<close>

theorem NewRequest_body_and_content_type:
  assumes "NewRequest ulib jlib c method urlStr body = Inr req"
  shows "if method = MethodGet \<or> method = MethodHead \<or> method = MethodOptions
         then ReqBody req = None
              \<and> Header req ''Content-Type''
                  = map snd (filter (\<lambda>kv. CanonicalMIMEHeaderKey (fst kv) = ''Content-Type'') (headers c))
         else Header req ''Content-Type''
                = mediaType # map snd (filter (\<lambda>kv. CanonicalMIMEHeaderKey (fst kv) = ''Content-Type'')
                                        (headers c))
              \<and> Header_Get (Header req) ''Content-Type'' = mediaType
              \<and> (case body of
                    None \<Rightarrow> ReqBody req = Some []
                  | Some b \<Rightarrow> json_Encode jlib b = Inr (the (ReqBody req)) \<and> ReqBody req \<noteq> None)"
proof -
  have ne: "''Content-Type'' \<noteq> ''Accept''" "''Content-Type'' \<noteq> ''User-Agent''" by simp_all
  obtain u where u: "url_Resolve ulib (BaseURL c) urlStr = Inr u"
    using assms by (auto simp add: NewRequest_def split: sum.splits)
  show ?thesis
  proof (cases "method = MethodGet \<or> method = MethodHead \<or> method = MethodOptions")
    case True
    with assms u obtain r0 where r0: "http_NewRequest ulib method u None = Inr r0"
      and req: "req = NewRequest_headers c r0"
      by (auto simp add: NewRequest_def split: sum.splits)
    from http_NewRequest_fields [OF r0] req True show ?thesis
      by (simp add: NewRequest_headers_other [OF ne])
  next
    case False
    with assms u obtain buf r0 where
      buf: "(case body of None \<Rightarrow> Inr [] | Some b \<Rightarrow> json_Encode jlib b) = Inr buf"
      and r0: "http_NewRequest ulib method u (Some buf) = Inr r0"
      and req: "req = NewRequest_headers c (r0\<lparr>Header := Header_Set (Header r0) ''Content-Type'' mediaType\<rparr>)"
      by (auto simp add: NewRequest_def split: sum.splits)
    have hd: "Header req ''Content-Type''
                = mediaType # map snd (filter (\<lambda>kv. CanonicalMIMEHeaderKey (fst kv) = ''Content-Type'')
                                        (headers c))"
      using http_NewRequest_fields [OF r0] req
      by (simp add: NewRequest_headers_other [OF ne] Header_Set_def canonical_keys)
    have body: "ReqBody req = Some buf"
      using http_NewRequest_fields [OF r0] req by simp
    from False hd body buf show ?thesis
      by (auto simp add: Header_Get_def canonical_keys split: option.splits)
  qed
qed


lemma token_methods:
  "list_all isTokenByte ''GET''" "list_all isTokenByte ''POST''"
  by code_simp+

lemma sample_http_NewRequest:
  assumes "list_all isTokenByte m" "m \<noteq> []"
  shows "http_NewRequest sample_urls m u b
           = Inr \<lparr>Method = m,
                  URL = takeWhile (\<lambda>c. c \<noteq> CHR ''?'') u
                        @ (if drop 1 (dropWhile (\<lambda>c. c \<noteq> CHR ''?'') u) = [] then []
                           else ''?'' @ drop 1 (dropWhile (\<lambda>c. c \<noteq> CHR ''?'') u)),
                  Header = (\<lambda>_. []), ReqBody = b\<rparr>"
  using assms by (simp add: http_NewRequest_def sample_urls_def)

lemmas sample_http_NewRequest_GET = sample_http_NewRequest [of "''GET''", OF token_methods(1), simplified]
lemmas sample_http_NewRequest_POST = sample_http_NewRequest [of "''POST''", OF token_methods(2), simplified]

lemma sample_url_Resolve: "url_Resolve sample_urls base ref = Inr (base @ ref)"
  by (simp add: sample_urls_def)

lemma sample_json_Encode: "json_Encode sample_json b = Inr (b @ [CHR 0x0A])"
  by (simp add: sample_json_def)

lemmas Method_defs = MethodGet_def MethodHead_def MethodOptions_def MethodPost_def MethodPut_def
  MethodDelete_def

lemma sample_NewRequest_GET:
  "\<exists>req. NewRequest sample_urls sample_json c MethodGet p b = Inr req \<and> Method req = ''GET''"
  by (simp add: NewRequest_def Method_defs sample_url_Resolve sample_http_NewRequest_GET)

lemma sample_NewRequest_POST:
  "\<exists>req. NewRequest sample_urls sample_json c MethodPost p b = Inr req \<and> Method req = ''POST''"
  by (cases b)
     (simp_all add: NewRequest_def Method_defs sample_url_Resolve sample_json_Encode
        sample_http_NewRequest_POST)

theorem NewRequest_body_and_content_type_witness:
  "(\<exists>req. NewRequest sample_urls sample_json NewClient MethodGet ''blueprint'' (Some ''{}'') = Inr req
        \<and> ReqBody req = None \<and> Header req ''Content-Type'' = [])
   \<and> (\<exists>req. NewRequest sample_urls sample_json NewClient MethodPost ''blueprint'' (Some ''{}'') = Inr req
        \<and> ReqBody req = Some (''{}'' @ [CHR 0x0A])
        \<and> Header req ''Content-Type'' = [''application/json''])
   \<and> (\<exists>req. NewRequest sample_urls sample_json NewClient MethodPost ''blueprint'' None = Inr req
        \<and> ReqBody req = Some [] \<and> Header_Get (Header req) ''Content-Type'' = ''application/json'')"
proof -
  have post: "\<not> (MethodPost = MethodGet \<or> MethodPost = MethodHead \<or> MethodPost = MethodOptions)"
    by (simp add: MethodPost_def MethodGet_def MethodHead_def MethodOptions_def)
  obtain r1 where r1: "NewRequest sample_urls sample_json NewClient MethodGet ''blueprint'' (Some ''{}'') = Inr r1"
    using sample_NewRequest_GET by blast
  obtain r2 where r2: "NewRequest sample_urls sample_json NewClient MethodPost ''blueprint'' (Some ''{}'') = Inr r2"
    using sample_NewRequest_POST by blast
  obtain r3 where r3: "NewRequest sample_urls sample_json NewClient MethodPost ''blueprint'' None = Inr r3"
    using sample_NewRequest_POST by blast
  have "ReqBody r1 = None \<and> Header r1 ''Content-Type'' = []"
    using NewRequest_body_and_content_type [OF r1] by (simp add: NewClient_def)
  moreover have "ReqBody r2 = Some (''{}'' @ [CHR 0x0A]) \<and> Header r2 ''Content-Type'' = [''application/json'']"
    using NewRequest_body_and_content_type [OF r2] post
    by (auto simp add: NewClient_def mediaType_def sample_json_def)
  moreover have "ReqBody r3 = Some [] \<and> Header_Get (Header r3) ''Content-Type'' = ''application/json''"
    using NewRequest_body_and_content_type [OF r3] post
    by (simp add: mediaType_def)
  ultimately show ?thesis using r1 r2 r3 by blast
qed

lemma New_content_type_client:
  "New [SetRequestHeaders [(''Content-Type'', ''text/plain'')]] = Inr content_type_client"
  by (simp add: New_def SetRequestHeaders_def NewClient_def content_type_client_def)

text \<open>
  The claim as stated fails for a client configured with a static Content-Type
  header: its GET request has no body, but carries that header.
\<close>

theorem NewRequest_GET_content_type_counterexample:
  "New [SetRequestHeaders [(''Content-Type'', ''text/plain'')]] = Inr content_type_client
   \<and> map_sum id (\<lambda>req. (Method req, ReqBody req, Header_Get (Header req) ''Content-Type''))
        (NewRequest sample_urls sample_json content_type_client MethodGet ''blueprint'' (Some ''{}''))
       = Inr (''GET'', None, ''text/plain'')"
proof -
  have ne: "''Content-Type'' \<noteq> ''Accept''" "''Content-Type'' \<noteq> ''User-Agent''" by simp_all
  have "NewRequest sample_urls sample_json content_type_client MethodGet ''blueprint'' (Some ''{}'')
      = Inr (NewRequest_headers content_type_client
               \<lparr>Method = ''GET'', URL = ''https://api.cloudcraft.co/blueprint'', Header = (\<lambda>_. []),
                ReqBody = None\<rparr>)"
    by (simp add: NewRequest_def Method_defs sample_url_Resolve sample_http_NewRequest_GET
          content_type_client_def NewClient_def defaultBaseURL_def)
  then show ?thesis
    by (simp add: New_content_type_client Header_Get_def canonical_keys
          NewRequest_headers_other [OF ne])
       (simp add: content_type_client_def canonical_keys)
qed

lemma NewFromToken_client:
  "NewFromToken token = Some (NewClient\<lparr>headers := [(''Authorization'', ''Bearer'' @ token)]\<rparr>)"
  by (simp add: NewFromToken_def New_def SetRequestHeaders_def NewClient_def)

text \<open>
  C9 (the header lacks the space): \<open>NewFromToken\<close> joins \<open>"Bearer"\<close> and the token
  with nothing between them, so every request of the client carries the
  Authorization value \<open>Bearer\<close> followed at once by the token: \<open>Bearerabc\<close> for
  the token \<open>abc\<close>, where the claim has \<open>Bearer abc\<close>.
\<close>

theorem NewFromToken_header_lacks_space:
  "map_option
     (\<lambda>c. map_sum id (\<lambda>req. Header req ''Authorization'')
            (NewRequest sample_urls sample_json c MethodGet ''blueprint'' None))
     (NewFromToken ''abc'')
   = Some (Inr [''Bearerabc''])
   \<and> ''Bearerabc'' \<noteq> ''Bearer abc''"
proof -
  let ?c = "NewClient\<lparr>headers := [(''Authorization'', ''Bearer'' @ ''abc'')]\<rparr>"
  have ne: "''Authorization'' \<noteq> ''Accept''" "''Authorization'' \<noteq> ''User-Agent''" by simp_all
  obtain req where req: "NewRequest sample_urls sample_json ?c MethodGet ''blueprint'' None = Inr req"
    using sample_NewRequest_GET by blast
  then obtain u r0 where "http_NewRequest sample_urls MethodGet u None = Inr r0"
    and "req = NewRequest_headers ?c r0"
    by (auto simp add: NewRequest_def split: sum.splits)
  then have "Header req ''Authorization'' = [''Bearerabc'']"
    using http_NewRequest_fields [of sample_urls MethodGet u None r0]
    by (simp add: NewRequest_headers_other [OF ne] canonical_keys)
  with req show ?thesis by (simp add: NewFromToken_client)
qed

subsection \<open>Query merge\<close>

lemma mergeValues_other:
  "k \<notin> fst ` set newValues \<Longrightarrow> map_of (mergeValues newValues origValues) k = map_of origValues k"
  unfolding mergeValues_def
  by (induction newValues arbitrary: origValues) (auto simp add: update_conv')

lemma mergeValues_new:
  "distinct (map fst newValues) \<Longrightarrow> (k, vs) \<in> set newValues
     \<Longrightarrow> map_of (mergeValues newValues origValues) k = Some vs"
proof (induction newValues arbitrary: origValues)
  case Nil
  then show ?case by simp
next
  case (Cons kv newValues)
  obtain k' v' where kv: "kv = (k', v')" by (cases kv)
  have step: "mergeValues (kv # newValues) origValues
                = mergeValues newValues (AList.update k' v' origValues)"
    by (simp add: mergeValues_def kv)
  show ?case
  proof (cases "(k, vs) = kv")
    case True
    with Cons.prems(1) kv have "k \<notin> fst ` set newValues" by auto
    then have "map_of (mergeValues newValues (AList.update k' v' origValues)) k
                 = map_of (AList.update k' v' origValues) k"
      by (rule mergeValues_other)
    with True kv step show ?thesis by (simp add: update_conv')
  next
    case False
    with Cons.prems have "distinct (map fst newValues)" "(k, vs) \<in> set newValues" by auto
    then have "map_of (mergeValues newValues (AList.update k' v' origValues)) k = Some vs"
      by (rule Cons.IH)
    with step show ?thesis by simp
  qed
qed

lemma mergeValues_keys:
  "fst ` set (mergeValues newValues origValues) = fst ` set origValues \<union> fst ` set newValues"
proof (induction newValues arbitrary: origValues)
  case Nil
  then show ?case by (simp add: mergeValues_def)
next
  case (Cons kv newValues)
  obtain k v where kv: "kv = (k, v)" by (cases kv)
  have "mergeValues (kv # newValues) origValues = mergeValues newValues (AList.update k v origValues)"
    by (simp add: mergeValues_def kv)
  then have "fst ` set (mergeValues (kv # newValues) origValues)
               = fst ` set (AList.update k v origValues) \<union> fst ` set newValues"
    by (simp only: Cons.IH)
  also have "\<dots> = ({k} \<union> fst ` set origValues) \<union> fst ` set newValues"
    by (simp only: dom_update)
  also have "\<dots> = fst ` set origValues \<union> fst ` set (kv # newValues)"
    by (auto simp add: kv)
  finally show ?case .
qed

lemma mergeValues_distinct:
  "distinct (map fst origValues) \<Longrightarrow> distinct (map fst (mergeValues newValues origValues))"
  unfolding mergeValues_def
  by (induction newValues arbitrary: origValues) (auto simp add: distinct_update)

text \<open>
  C6: for a string that parses as a URL and an options value that is no nil pointer
  and converts to query values (a Go map, so each key once), \<open>addOptions\<close> returns
  the URL whose query is the encoding of the merged values: each key of the options
  has exactly the options' values, each key of the original query alone keeps its
  values, and there are no other keys.
\<close>

theorem addOptions_merges_query:
  assumes "url_Parse lib s = Inr u"
    and "query_Values lib ov = Inr newValues"
    and "distinct (map fst newValues)"
  shows "addOptions lib s (NonNil ov)
           = (url_String lib
                (u\<lparr>RawQuery := Values_Encode lib (mergeValues newValues (url_Query lib u))\<rparr>), None)
         \<and> (\<forall>(k, vs) \<in> set newValues.
               map_of (mergeValues newValues (url_Query lib u)) k = Some vs)
         \<and> (\<forall>k. k \<notin> fst ` set newValues \<longrightarrow>
               map_of (mergeValues newValues (url_Query lib u)) k = map_of (url_Query lib u) k)
         \<and> fst ` set (mergeValues newValues (url_Query lib u))
             = fst ` set (url_Query lib u) \<union> fst ` set newValues"
proof (intro conjI)
  show "addOptions lib s (NonNil ov)
           = (url_String lib
                (u\<lparr>RawQuery := Values_Encode lib (mergeValues newValues (url_Query lib u))\<rparr>), None)"
    using assms(1,2) by (simp add: addOptions_def)
  show "\<forall>(k, vs) \<in> set newValues. map_of (mergeValues newValues (url_Query lib u)) k = Some vs"
    using mergeValues_new [OF assms(3)] by blast
  show "\<forall>k. k \<notin> fst ` set newValues \<longrightarrow>
               map_of (mergeValues newValues (url_Query lib u)) k = map_of (url_Query lib u) k"
    using mergeValues_other by blast
  show "fst ` set (mergeValues newValues (url_Query lib u))
             = fst ` set (url_Query lib u) \<union> fst ` set newValues"
    by (rule mergeValues_keys)
qed

theorem addOptions_merges_query_witness:
  "url_Parse sample_urls ''blueprint/abc/png?grid=true&scale=1''
     = Inr \<lparr>Scheme = [], Host = [], Path = ''blueprint/abc/png'', RawQuery = ''grid=true&scale=1'',
            Fragment = []\<rparr>
   \<and> query_Values sample_urls [(''grid'', [''false'']), (''width'', [''800''])]
       = Inr [(''grid'', [''false'']), (''width'', [''800''])]
   \<and> distinct (map fst [(''grid'', [''false'']), (''width'', [''800''])])
   \<and> addOptions sample_urls ''blueprint/abc/png?grid=true&scale=1''
        (NonNil [(''grid'', [''false'']), (''width'', [''800''])])
       = (''blueprint/abc/png?grid=false&scale=1&width=800'', None)
   \<and> map_of (mergeValues [(''grid'', [''false'']), (''width'', [''800''])]
                [(''grid'', [''true'']), (''scale'', [''1''])]) ''grid'' = Some [''false'']
   \<and> map_of (mergeValues [(''grid'', [''false'']), (''width'', [''800''])]
                [(''grid'', [''true'']), (''scale'', [''1''])]) ''scale'' = Some [''1'']"
proof -
  let ?u = "\<lparr>Scheme = [], Host = [], Path = ''blueprint/abc/png'', RawQuery = ''grid=true&scale=1'',
             Fragment = []\<rparr>"
  let ?nv = "[(''grid'', [''false'']), (''width'', [''800''])]"
  have p: "url_Parse sample_urls ''blueprint/abc/png?grid=true&scale=1'' = Inr ?u"
    by (simp add: sample_urls_def)
  have q: "query_Values sample_urls ?nv = Inr ?nv"
    by (simp add: sample_urls_def)
  have d: "distinct (map fst ?nv)"
    by simp
  have oq: "url_Query sample_urls ?u = [(''grid'', [''true'']), (''scale'', [''1''])]"
    by (simp add: sample_urls_def)
  have m: "mergeValues ?nv [(''grid'', [''true'']), (''scale'', [''1''])]
             = [(''grid'', [''false'']), (''scale'', [''1'']), (''width'', [''800''])]"
    by (simp add: mergeValues_def)
  note r = addOptions_merges_query [OF p q d, unfolded oq]
  from r have "addOptions sample_urls ''blueprint/abc/png?grid=true&scale=1'' (NonNil ?nv)
                 = (''blueprint/abc/png?grid=false&scale=1&width=800'', None)"
    by (simp add: m) (simp add: sample_urls_def)
  moreover from r have "map_of (mergeValues ?nv [(''grid'', [''true'']), (''scale'', [''1''])]) ''grid''
                 = Some [''false'']"
    by simp
  moreover from r have "map_of (mergeValues ?nv [(''grid'', [''true'']), (''scale'', [''1''])]) ''scale''
                 = Some [''1'']"
    by simp
  ultimately show ?thesis using p q d by simp
qed

text \<open>
  C7: with a nil pointer as options, \<open>addOptions\<close> returns its string unchanged
  and no error, whatever the string is; so merging nil options into a resolved URL
  gives the resolved URL.
\<close>

theorem addOptions_nil_is_identity:
  "addOptions lib s NilPtr = (s, None)
   \<and> map_sum id (\<lambda>u. addOptions lib u NilPtr) (url_Resolve lib base path)
       = map_sum id (\<lambda>u. (u, None)) (url_Resolve lib base path)"
  by (cases "url_Resolve lib base path") (simp_all add: addOptions_def)

subsection \<open>Argument checks of the services\<close>

lemma arg_failure_builds_nothing:
  "arg_failure name reason = Some (Return res)
     \<Longrightarrow> svc_err res = Some (ArgError name reason) \<and> svc_value res = None
         \<and> svc_response res = None \<and> svc_built res = [] \<and> svc_sent res = []"
  by (auto simp add: arg_failure_def NewArgError_def)

text \<open>The checks that the operations do make, each before anything else.\<close>

lemma required_arguments_checked:
  "Blueprints_Get s [] = arg_failure ''blueprintId'' ''cannot be empty''"
  "Blueprints_Create s None = arg_failure ''createRequest'' ''cannot be nil''"
  "Blueprints_Update s [] ur = arg_failure ''blueprintId'' ''cannot be empty''"
  "blueprintId \<noteq> [] \<Longrightarrow> Blueprints_Update s blueprintId None = arg_failure ''updateRequest'' ''cannot be nil''"
  "Blueprints_Delete s [] = arg_failure ''blueprintId'' ''cannot be empty''"
  "Blueprints_Export s [] er = arg_failure ''blueprintId'' ''cannot be empty''"
  "AwsAccounts_Get s [] = arg_failure ''awsAccountID'' ''cannot be empty''"
  "AwsAccounts_Create s None = arg_failure ''createRequest'' ''cannot be nil''"
  "AwsAccounts_Update s [] ur = arg_failure ''awsAccountID'' ''cannot be empty''"
  "awsAccountID \<noteq> [] \<Longrightarrow> AwsAccounts_Update s awsAccountID None = arg_failure ''updateRequest'' ''cannot be nil''"
  "AwsAccounts_Delete s [] = arg_failure ''awsAccountID'' ''cannot be empty''"
  "AwsAccounts_Snapshot s [] sr = arg_failure ''awsAccountID'' ''cannot be empty''"
  "Users_Get s [] = arg_failure ''userID'' ''cannot be empty''"
  by (simp_all add: Blueprints_Get_def Blueprints_Create_def Blueprints_Update_def
      Blueprints_Delete_def Blueprints_Export_def AwsAccounts_Get_def AwsAccounts_Create_def
      AwsAccounts_Update_def AwsAccounts_Delete_def AwsAccounts_Snapshot_def Users_Get_def)

text \<open>
  C8 (two operations crash instead): \<open>Export\<close> and \<open>Snapshot\<close> test the
  identifier but not the request. With an identifier and a nil request they read a
  field of the nil request and panic, where \<open>Create\<close> and \<open>Update\<close> return the
  argument error.
\<close>

theorem Export_and_Snapshot_nil_request_panic:
  "Blueprints_Export s ''abc'' None = Some (Panic ''invalid memory address or nil pointer dereference'')
   \<and> AwsAccounts_Snapshot s ''abc'' None
       = Some (Panic ''invalid memory address or nil pointer dereference'')"
  by (simp add: Blueprints_Export_def AwsAccounts_Snapshot_def)

end
